theory Spec2Isabelle
  imports Main "HOL-Library.Sublist"
begin

section \<open>JavaScript strings and primitive values\<close>

text \<open>
  A JavaScript string is a sequence of code units. A \<^typ>\<open>string\<close> here is such a
  sequence with every code unit below 256 (ASCII and the Latin-1 supplement); \<open>code_unit\<close> is the
  number of a code unit. The character classes are those of the regular expressions of
  \<^verbatim>\<open>backend/server.js\<close>: \<^verbatim>\<open>\d\<close> and \<^verbatim>\<open>[0-9]\<close>, \<^verbatim>\<open>[a-z0-9]\<close> under the flag
  \<^verbatim>\<open>i\<close>, \<^verbatim>\<open>\w\<close> (for \<^verbatim>\<open>\b\<close>) and \<^verbatim>\<open>\s\<close>.
\<close>

definition code_unit :: "char \<Rightarrow> nat" where
  "code_unit c = of_char c"

definition is_digit :: "char \<Rightarrow> bool" where
  "is_digit c \<longleftrightarrow> 48 \<le> code_unit c \<and> code_unit c \<le> 57"

definition is_alnum :: "char \<Rightarrow> bool" where
  "is_alnum c \<longleftrightarrow> is_digit c \<or> (97 \<le> code_unit c \<and> code_unit c \<le> 122) \<or> (65 \<le> code_unit c \<and> code_unit c \<le> 90)"

definition is_word :: "char \<Rightarrow> bool" where
  "is_word c \<longleftrightarrow> is_alnum c \<or> code_unit c = 95"

definition is_space :: "char \<Rightarrow> bool" where
  "is_space c \<longleftrightarrow> code_unit c \<in> {9, 10, 11, 12, 13, 32, 160}"

text \<open>\<^verbatim>\<open>String.prototype.toLowerCase\<close>, one code unit at a time: \<^verbatim>\<open>A-Z\<close> and the
  upper-case letters of Latin-1 (192 to 222 without the multiplication sign 215) move up
  by 32.\<close>

definition toLowerCase_unit :: "char \<Rightarrow> char" where
  "toLowerCase_unit c =
     (if (65 \<le> code_unit c \<and> code_unit c \<le> 90) \<or> (192 \<le> code_unit c \<and> code_unit c \<le> 222 \<and> code_unit c \<noteq> 215)
      then char_of (code_unit c + 32) else c)"

definition toLowerCase :: "string \<Rightarrow> string" where
  "toLowerCase s = map toLowerCase_unit s"

text \<open>\<^verbatim>\<open>hay.includes(needle)\<close>: the needle occurs at some position of the haystack.\<close>

fun includes_str :: "string \<Rightarrow> string \<Rightarrow> bool" where
  "includes_str [] needle = (needle = [])"
| "includes_str (c # cs) needle = (prefix needle (c # cs) \<or> includes_str cs needle)"

text \<open>The decimal digits of a natural number, as \<^verbatim>\<open>String(n)\<close> writes them.\<close>

definition digit_unit :: "nat \<Rightarrow> char" where
  "digit_unit d = char_of (48 + d)"

function decimal :: "nat \<Rightarrow> string" where
  "decimal n = (if n < 10 then [digit_unit n] else decimal (n div 10) @ [digit_unit (n mod 10)])"
  by pat_completeness auto
termination
  by (relation "measure (\<lambda>n. n)") auto

declare decimal.simps [simp del]

text \<open>
  The values a field of a parsed product can hold: absent (\<open>JUndefined\<close>), \<^verbatim>\<open>null\<close>, a
  boolean, a number or a string. Numbers are the integers (a JSON number with a fraction
  is not covered; \<^verbatim>\<open>price\<close>, the one field that usually has one, is only copied).
\<close>

datatype jsprim = JUndefined | JNull | JBool bool | JNum int | JStr string

fun truthy :: "jsprim \<Rightarrow> bool" where
  "truthy JUndefined = False"
| "truthy JNull = False"
| "truthy (JBool b) = b"
| "truthy (JNum n) = (n \<noteq> 0)"
| "truthy (JStr s) = (s \<noteq> [])"

text \<open>\<^verbatim>\<open>String(v)\<close>, and the conversion \<^verbatim>\<open>v + ' '\<close> applies to \<^verbatim>\<open>v\<close> (integers below
  \<open>10^21\<close> in absolute value, which JavaScript writes without an exponent).\<close>

fun String :: "jsprim \<Rightarrow> string" where
  "String JUndefined = ''undefined''"
| "String JNull = ''null''"
| "String (JBool b) = (if b then ''true'' else ''false'')"
| "String (JNum n) = (if n < 0 then CHR ''-'' # decimal (nat (- n)) else decimal (nat n))"
| "String (JStr s) = s"

datatype error = TypeError

text \<open>\<^verbatim>\<open>v.toLowerCase()\<close>: a \<^verbatim>\<open>TypeError\<close> unless \<^verbatim>\<open>v\<close> is a string (\<^verbatim>\<open>null\<close> and
  \<^verbatim>\<open>undefined\<close> have no properties, a number or boolean has no such method).\<close>

fun call_toLowerCase :: "jsprim \<Rightarrow> error + string" where
  "call_toLowerCase (JStr s) = Inr (toLowerCase s)"
| "call_toLowerCase v = Inl TypeError"

section \<open>The catalog\<close>

text \<open>A product as \<^verbatim>\<open>JSON.parse\<close> delivers it: the eight fields of the summary, each
  possibly absent or of another type than the data model asks for, and any further keys.\<close>

record ProductSummary =
  id_field :: jsprim
  sku :: jsprim
  name :: jsprim
  brand :: jsprim
  category :: jsprim
  price :: jsprim
  stock :: jsprim
  description :: jsprim

record Product = ProductSummary +
  other_keys :: "(string \<times> jsprim) list"

text \<open>\<^verbatim>\<open>Array.prototype.filter\<close> with a callback that may throw: the first exception
  ends the whole call.\<close>

fun filter_throwing :: "('a \<Rightarrow> error + bool) \<Rightarrow> 'a list \<Rightarrow> error + 'a list" where
  "filter_throwing f [] = Inr []"
| "filter_throwing f (x # xs) =
     (case f x of
        Inl e \<Rightarrow> Inl e
      | Inr b \<Rightarrow>
          (case filter_throwing f xs of
             Inl e \<Rightarrow> Inl e
           | Inr ys \<Rightarrow> Inr (if b then x # ys else ys)))"

section \<open>GET /products\<close>

text \<open>The callback of the filter, \<^verbatim>\<open>||\<close> evaluated left to right and stopping at the
  first field that contains \<^verbatim>\<open>s\<close>.\<close>

definition search_callback :: "string \<Rightarrow> Product \<Rightarrow> error + bool" where
  "search_callback s p =
     (case call_toLowerCase (name p) of
        Inl e \<Rightarrow> Inl e
      | Inr n \<Rightarrow>
          if includes_str n s then Inr True
          else (case call_toLowerCase (description p) of
                  Inl e \<Rightarrow> Inl e
                | Inr d \<Rightarrow>
                    if includes_str d s then Inr True
                    else (case call_toLowerCase (category p) of
                            Inl e \<Rightarrow> Inl e
                          | Inr c \<Rightarrow> Inr (includes_str c s))))"

text \<open>\<^verbatim>\<open>search\<close> is \<^verbatim>\<open>req.query.q\<close>: \<open>None\<close> when the parameter is absent.\<close>

definition search :: "Product list \<Rightarrow> string option \<Rightarrow> error + Product list" where
  "search products q =
     (case q of
        None \<Rightarrow> Inr products
      | Some t \<Rightarrow>
          if t = [] then Inr products
          else filter_throwing (search_callback (toLowerCase t)) products)"

datatype products_body = Names "jsprim list" | Records "Product list"

definition get_products :: "Product list \<Rightarrow> bool \<Rightarrow> string option \<Rightarrow> error + products_body" where
  "get_products products namesOnly q =
     (case search products q of
        Inl e \<Rightarrow> Inl e
      | Inr result \<Rightarrow> Inr (if namesOnly then Names (map name result) else Records result))"

section \<open>POST /chat: the regular expressions\<close>

text \<open>\<^verbatim>\<open>\d{1,6}\<close> with nothing required after it: greedy, so the digits at the head of
  \<^verbatim>\<open>s\<close>, six at most; the empty result is a failure to match.\<close>

definition digits_1_6 :: "string \<Rightarrow> string" where
  "digits_1_6 s = takeWhile is_digit (take 6 s)"

text \<open>A lower-case ASCII literal under the flag \<^verbatim>\<open>i\<close>, at the head of \<^verbatim>\<open>s\<close>.\<close>

definition literal_i :: "string \<Rightarrow> string \<Rightarrow> bool" where
  "literal_i lit s \<longleftrightarrow> length lit \<le> length s \<and> toLowerCase (take (length lit) s) = lit"

definition is_separator :: "char \<Rightarrow> bool" where
  "is_separator c \<longleftrightarrow> c = CHR ''-'' \<or> c = CHR ''_'' \<or> c = CHR '' ''"

text \<open>\<^verbatim>\<open>sku[-_ ]?\d{1,6}\<close> at the head of \<^verbatim>\<open>s\<close>: the optional separator is tried first,
  and given up when no digit follows it.\<close>

definition sku_alternative :: "string \<Rightarrow> string option" where
  "sku_alternative s =
     (if literal_i ''sku'' s then
        (case drop 3 s of
           [] \<Rightarrow> None
         | c # rest \<Rightarrow>
             if is_separator c \<and> digits_1_6 rest \<noteq> []
             then Some (take 3 s @ [c] @ digits_1_6 rest)
             else if digits_1_6 (c # rest) \<noteq> []
             then Some (take 3 s @ digits_1_6 (c # rest))
             else None)
      else None)"

text \<open>\<^verbatim>\<open>product\s*\d{1,6}\<close> at the head of \<^verbatim>\<open>s\<close>: \<^verbatim>\<open>\s*\<close> takes all the white space
  (giving some back leaves white space where a digit is required).\<close>

definition product_alternative :: "string \<Rightarrow> string option" where
  "product_alternative s =
     (if literal_i ''product'' s then
        (let rest = drop 7 s; digits = digits_1_6 (dropWhile is_space rest)
         in if digits \<noteq> [] then Some (take 7 s @ takeWhile is_space rest @ digits) else None)
      else None)"

definition sku_regex_at :: "string \<Rightarrow> string option" where
  "sku_regex_at s =
     (case sku_alternative s of Some tok \<Rightarrow> Some tok | None \<Rightarrow> product_alternative s)"

text \<open>\<^verbatim>\<open>message.match(/(sku[-_ ]?\d{1,6}|product\s*\d{1,6})/i)\<close>: the match at the
  leftmost position that has one (\<^verbatim>\<open>skuMatch[0]\<close>), \<open>None\<close> for \<^verbatim>\<open>null\<close>.\<close>

fun skuMatch :: "string \<Rightarrow> string option" where
  "skuMatch [] = sku_regex_at []"
| "skuMatch (c # cs) =
     (case sku_regex_at (c # cs) of Some tok \<Rightarrow> Some tok | None \<Rightarrow> skuMatch cs)"

text \<open>\<^verbatim>\<open>\b\<close> between the code unit before a position and the one after it (\<open>None\<close> at
  either end of the string).\<close>

definition next_unit :: "string \<Rightarrow> char option" where
  "next_unit s = (case s of [] \<Rightarrow> None | c # _ \<Rightarrow> Some c)"

definition boundary :: "char option \<Rightarrow> char option \<Rightarrow> bool" where
  "boundary prev nxt \<longleftrightarrow>
     (case prev of None \<Rightarrow> False | Some c \<Rightarrow> is_word c) \<noteq>
     (case nxt of None \<Rightarrow> False | Some c \<Rightarrow> is_word c)"

text \<open>\<^verbatim>\<open>\b(\d{1,6})\b\<close> at the head of \<^verbatim>\<open>s\<close>, \<^verbatim>\<open>prev\<close> the code unit before it: the
  greedy \<^verbatim>\<open>\d{1,6}\<close> tries six digits, then five, down to one, until \<^verbatim>\<open>\b\<close> holds
  after them.\<close>

definition id_try :: "string \<Rightarrow> nat \<Rightarrow> bool" where
  "id_try s k \<longleftrightarrow>
     k \<le> length s \<and> list_all is_digit (take k s) \<and>
     boundary (Some (last (take k s))) (next_unit (drop k s))"

definition id_regex_at :: "char option \<Rightarrow> string \<Rightarrow> string option" where
  "id_regex_at prev s =
     (if boundary prev (next_unit s)
      then map_option (\<lambda>k. take k s) (find (id_try s) [6, 5, 4, 3, 2, 1])
      else None)"

fun id_scan :: "char option \<Rightarrow> string \<Rightarrow> string option" where
  "id_scan prev [] = id_regex_at prev []"
| "id_scan prev (c # cs) =
     (case id_regex_at prev (c # cs) of Some d \<Rightarrow> Some d | None \<Rightarrow> id_scan (Some c) cs)"

text \<open>\<^verbatim>\<open>message.match(/\b(\d{1,6})\b/)\<close>: the group \<^verbatim>\<open>idMatch[1]\<close> of the leftmost
  match.\<close>

definition idMatch :: "string \<Rightarrow> string option" where
  "idMatch message = id_scan None message"

text \<open>\<^verbatim>\<open>m.split(/\s+/)\<close>: every maximal run of white space separates two pieces, so
  white space at either end of \<^verbatim>\<open>m\<close> leaves an empty piece there.\<close>

function split_from :: "string \<Rightarrow> string \<Rightarrow> string list" where
  "split_from piece [] = [piece]"
| "split_from piece (c # cs) =
     (if is_space c then piece # split_from [] (dropWhile is_space cs)
      else split_from (piece @ [c]) cs)"
  by pat_completeness auto
termination
  by (relation "measure (\<lambda>(piece, s). length s)")
     (auto simp: less_Suc_eq_le length_dropWhile_le)

definition split_ws :: "string \<Rightarrow> string list" where
  "split_ws m = split_from [] m"

section \<open>POST /chat: the local branches\<close>

definition list_all_trigger :: "string \<Rightarrow> bool" where
  "list_all_trigger m \<longleftrightarrow>
     includes_str m ''list'' \<or>
     includes_str m ''names'' \<or>
     includes_str m ''show products'' \<or>
     includes_str m ''product list'' \<or>
     includes_str m ''give the list'' \<or>
     includes_str m ''give list'' \<or>
     includes_str m ''give the list product'' \<or>
     includes_str m ''product names''"

text \<open>The callback of the SKU filter:
  \<^verbatim>\<open>String(p.id) === s || (p.sku && p.sku.toLowerCase().includes(s))\<close>.\<close>

definition sku_callback :: "string \<Rightarrow> Product \<Rightarrow> error + bool" where
  "sku_callback s p =
     (if String (id_field p) = s then Inr True
      else if \<not> truthy (sku p) then Inr False
      else (case call_toLowerCase (sku p) of
              Inl e \<Rightarrow> Inl e
            | Inr l \<Rightarrow> Inr (includes_str l s)))"

text \<open>\<^verbatim>\<open>localMatches\<close> after the block \<^verbatim>\<open>if (skuMatch) { ... }\<close>; \<^verbatim>\<open>s\<close> is the
  matched text without its non-digits.\<close>

definition sku_lookup :: "Product list \<Rightarrow> string \<Rightarrow> error + Product list" where
  "sku_lookup products message =
     (case skuMatch message of
        None \<Rightarrow> Inr []
      | Some tok \<Rightarrow> filter_throwing (sku_callback (filter is_digit tok)) products)"

text \<open>What the block \<^verbatim>\<open>if (!localMatches.length && idMatch) { ... }\<close> assigns when it
  runs (nothing to assign without \<^verbatim>\<open>idMatch\<close>: the list stays empty).\<close>

definition id_lookup :: "Product list \<Rightarrow> string \<Rightarrow> Product list" where
  "id_lookup products message =
     (case idMatch message of
        None \<Rightarrow> []
      | Some d \<Rightarrow> filter (\<lambda>p. String (id_field p) = d) products)"

definition direct_lookup :: "Product list \<Rightarrow> string \<Rightarrow> error + Product list" where
  "direct_lookup products message =
     (case sku_lookup products message of
        Inl e \<Rightarrow> Inl e
      | Inr localMatches \<Rightarrow>
          Inr (if localMatches = [] then id_lookup products message else localMatches))"

definition words :: "string \<Rightarrow> string list" where
  "words m = map (filter is_alnum) (filter (\<lambda>w. w \<noteq> []) (split_ws m))"

definition alphaTokens :: "string \<Rightarrow> string list" where
  "alphaTokens m = filter (\<lambda>t. 3 \<le> length t) (map (filter is_alnum) (split_ws m))"

text \<open>\<^verbatim>\<open>(v || '')\<close>\<close>

definition or_empty :: "jsprim \<Rightarrow> jsprim" where
  "or_empty v = (if truthy v then v else JStr [])"

definition hay :: "Product \<Rightarrow> string" where
  "hay p =
     toLowerCase
       (String (name p) @ '' '' @ String (or_empty (brand p)) @ '' '' @
        String (or_empty (description p)) @ '' '' @ String (or_empty (category p)))"

definition fuzzy_callback :: "string \<Rightarrow> Product \<Rightarrow> bool" where
  "fuzzy_callback m p =
     (let anyWord = list_ex (\<lambda>w. w \<noteq> [] \<and> includes_str (hay p) w) (words m);
          anyToken = list_ex (\<lambda>t. t \<noteq> [] \<and> includes_str (hay p) (toLowerCase t)) (alphaTokens m);
          whole = (m \<noteq> [] \<and> includes_str (hay p) (filter (\<lambda>c. is_alnum c \<or> c = CHR '' '') m))
      in anyWord \<or> anyToken \<or> whole)"

definition fuzzy_lookup :: "Product list \<Rightarrow> string \<Rightarrow> Product list" where
  "fuzzy_lookup products m = filter (fuzzy_callback m) products"

text \<open>\<^verbatim>\<open>localMatches\<close> when the handler reaches \<^verbatim>\<open>if (localMatches && localMatches.length)\<close>.\<close>

definition local_lookup :: "Product list \<Rightarrow> string \<Rightarrow> error + Product list" where
  "local_lookup products message =
     (case direct_lookup products message of
        Inl e \<Rightarrow> Inl e
      | Inr localMatches \<Rightarrow>
          Inr (if localMatches = [] then fuzzy_lookup products (toLowerCase message)
               else localMatches))"

definition summary :: "Product \<Rightarrow> ProductSummary" where
  "summary p =
     \<lparr>id_field = id_field p, sku = sku p, name = name p, brand = brand p,
      category = category p, price = price p, stock = stock p, description = description p\<rparr>"

section \<open>POST /chat: the delegate\<close>

text \<open>
  The parsed body of the delegate's response. A number is an integer here; of a number the
  handler only observes whether it is zero, and a number with a fraction is not. The pairs
  of an object are in the order of the document, a repeated key meaning its last value. A
  \<open>json option\<close> is a JavaScript value, \<open>None\<close> being \<^verbatim>\<open>undefined\<close>.
\<close>

datatype json =
    JsonNull
  | JsonBool bool
  | JsonNum int
  | JsonStr string
  | JsonArr "json list"
  | JsonObj "(string \<times> json) list"

fun json_truthy :: "json \<Rightarrow> bool" where
  "json_truthy JsonNull = False"
| "json_truthy (JsonBool b) = b"
| "json_truthy (JsonNum n) = (n \<noteq> 0)"
| "json_truthy (JsonStr s) = (s \<noteq> [])"
| "json_truthy (JsonArr xs) = True"
| "json_truthy (JsonObj kvs) = True"

definition value_truthy :: "json option \<Rightarrow> bool" where
  "value_truthy v = (case v of None \<Rightarrow> False | Some x \<Rightarrow> json_truthy x)"

definition own_property :: "(string \<times> json) list \<Rightarrow> string \<Rightarrow> json option" where
  "own_property kvs k = map_of (rev kvs) k"

text \<open>\<^verbatim>\<open>v.k\<close> for a name \<^verbatim>\<open>k\<close> that no prototype defines and that is no index (such are
  \<^verbatim>\<open>candidates\<close>, \<^verbatim>\<open>content\<close>, \<^verbatim>\<open>parts\<close> and \<^verbatim>\<open>text\<close>): a \<^verbatim>\<open>TypeError\<close> on
  \<^verbatim>\<open>undefined\<close> and \<^verbatim>\<open>null\<close>, \<^verbatim>\<open>undefined\<close> on every value but an object.\<close>

fun get_named :: "string \<Rightarrow> json option \<Rightarrow> error + json option" where
  "get_named k None = Inl TypeError"
| "get_named k (Some JsonNull) = Inl TypeError"
| "get_named k (Some (JsonObj kvs)) = Inr (own_property kvs k)"
| "get_named k (Some v) = Inr None"

text \<open>\<^verbatim>\<open>v[0]\<close>: the first element of an array, the first code unit of a string, the
  property \<^verbatim>\<open>"0"\<close> of an object.\<close>

fun get_first :: "json option \<Rightarrow> error + json option" where
  "get_first None = Inl TypeError"
| "get_first (Some JsonNull) = Inl TypeError"
| "get_first (Some (JsonArr xs)) = Inr (case xs of [] \<Rightarrow> None | x # _ \<Rightarrow> Some x)"
| "get_first (Some (JsonStr s)) = Inr (case s of [] \<Rightarrow> None | c # _ \<Rightarrow> Some (JsonStr [c]))"
| "get_first (Some (JsonObj kvs)) = Inr (own_property kvs ''0'')"
| "get_first (Some v) = Inr None"

definition then_get ::
  "error + json option \<Rightarrow> (json option \<Rightarrow> error + json option) \<Rightarrow> error + json option" where
  "then_get a f = (case a of Inl e \<Rightarrow> Inl e | Inr v \<Rightarrow> f v)"

text \<open>The operands of the expression that computes \<^verbatim>\<open>aiText\<close>.\<close>

definition data_candidates :: "json \<Rightarrow> error + json option" where
  "data_candidates data = get_named ''candidates'' (Some data)"

definition data_candidates_0 :: "json \<Rightarrow> error + json option" where
  "data_candidates_0 data = then_get (data_candidates data) get_first"

definition data_content :: "json \<Rightarrow> error + json option" where
  "data_content data = then_get (data_candidates_0 data) (get_named ''content'')"

definition data_parts :: "json \<Rightarrow> error + json option" where
  "data_parts data = then_get (data_content data) (get_named ''parts'')"

definition data_parts_0 :: "json \<Rightarrow> error + json option" where
  "data_parts_0 data = then_get (data_parts data) get_first"

definition data_text :: "json \<Rightarrow> error + json option" where
  "data_text data = then_get (data_parts_0 data) (get_named ''text'')"

text \<open>\<^verbatim>\<open>a && b\<close>: \<^verbatim>\<open>b\<close> is evaluated, and can throw, only when \<^verbatim>\<open>a\<close> is truthy.\<close>

definition and_also :: "error + json option \<Rightarrow> error + json option \<Rightarrow> error + json option" where
  "and_also a b =
     (case a of Inl e \<Rightarrow> Inl e | Inr v \<Rightarrow> if value_truthy v then b else Inr v)"

definition guarded_text :: "json \<Rightarrow> error + json option" where
  "guarded_text data =
     and_also (and_also (and_also (and_also (and_also (and_also
       (Inr (Some data))
       (data_candidates data))
       (data_candidates_0 data))
       (data_content data))
       (data_parts data))
       (data_parts_0 data))
       (data_text data)"

definition aiText :: "json \<Rightarrow> error + json" where
  "aiText data =
     (case guarded_text data of
        Inl e \<Rightarrow> Inl e
      | Inr None \<Rightarrow> Inr (JsonStr ''No response.'')
      | Inr (Some v) \<Rightarrow> Inr (if json_truthy v then v else JsonStr ''No response.''))"

text \<open>The call of \<^verbatim>\<open>fetch\<close>: the request carries the key twice and the message; the
  outcome is a rejection, or a status with a body that cannot be read, or can be read as
  text and, when it is JSON, parsed.\<close>

record fetch_request =
  url :: string
  authorization :: string
  contents_text :: string

datatype http_body = Unreadable | Body string "json option"

datatype fetch_outcome = Rejected | Responded nat http_body

definition ok :: "nat \<Rightarrow> bool" where
  "ok st \<longleftrightarrow> 200 \<le> st \<and> st \<le> 299"

datatype chat_body =
    Error_body string
  | Error_details string string
  | Reply_names string "jsprim list"
  | Reply_products string "ProductSummary list"
  | Reply_text json

record chat_response =
  status :: nat
  body :: chat_body

text \<open>The result of the handler: the response it sends, or the exception it ends with
  having sent none, and the requests it made to the delegate.\<close>

type_synonym chat_result = "(error + chat_response) \<times> fetch_request list"

definition key_missing :: "string option \<Rightarrow> bool" where
  "key_missing key = (case key of None \<Rightarrow> True | Some k \<Rightarrow> k = [])"

definition gemini_request :: "string \<Rightarrow> string \<Rightarrow> fetch_request" where
  "gemini_request k message =
     \<lparr>url = ''https://generativelanguage.googleapis.com/v1beta/models/gemini-pro:generateContent?key='' @ k,
      authorization = ''Bearer '' @ k,
      contents_text = message\<rparr>"

definition request_failed :: chat_response where
  "request_failed = \<lparr>status = 500, body = Error_body ''Gemini request failed.''\<rparr>"

definition delegate ::
  "string option \<Rightarrow> (fetch_request \<Rightarrow> fetch_outcome) \<Rightarrow> string \<Rightarrow> chat_result" where
  "delegate key fetch message =
     (case key of
        None \<Rightarrow>
          (Inr \<lparr>status = 500,
                body = Error_body ''Gemini API key missing. Add GEMINI_API_KEY in .env file.''\<rparr>, [])
      | Some k \<Rightarrow>
          if k = [] then
            (Inr \<lparr>status = 500,
                  body = Error_body ''Gemini API key missing. Add GEMINI_API_KEY in .env file.''\<rparr>, [])
          else
            (let request = gemini_request k message in
             case fetch request of
               Rejected \<Rightarrow> (Inr request_failed, [request])
             | Responded st Unreadable \<Rightarrow> (Inr request_failed, [request])
             | Responded st (Body raw parsed) \<Rightarrow>
                 if \<not> ok st then
                   (Inr \<lparr>status = 502, body = Error_details ''Gemini request failed.'' raw\<rparr>,
                    [request])
                 else
                   (case parsed of
                      None \<Rightarrow> (Inr request_failed, [request])
                    | Some data \<Rightarrow>
                        (case aiText data of
                           Inl e \<Rightarrow> (Inr request_failed, [request])
                         | Inr reply \<Rightarrow>
                             (Inr \<lparr>status = 200, body = Reply_text reply\<rparr>, [request])))))"

text \<open>The handler of \<^verbatim>\<open>POST /chat\<close>. Its inputs are the catalog, the variable
  \<^verbatim>\<open>GEMINI_API_KEY\<close> of the environment, the delegate, and \<^verbatim>\<open>req.body.message\<close>. A
  truthy message that is no string ends in the \<^verbatim>\<open>TypeError\<close> of
  \<^verbatim>\<open>message.toLowerCase()\<close>.\<close>

definition chat ::
  "Product list \<Rightarrow> string option \<Rightarrow> (fetch_request \<Rightarrow> fetch_outcome) \<Rightarrow> jsprim \<Rightarrow> chat_result" where
  "chat products key fetch body_message =
     (let message = (if truthy body_message then body_message else JStr []) in
      if \<not> truthy message then
        (Inr \<lparr>status = 400, body = Error_body ''Message is required''\<rparr>, [])
      else
        (case message of
           JStr text \<Rightarrow>
             if list_all_trigger (toLowerCase text) then
               (Inr \<lparr>status = 200,
                     body = Reply_names ''Here are the product names:'' (map name products)\<rparr>, [])
             else
               (case local_lookup products text of
                  Inl e \<Rightarrow> (Inl e, [])
                | Inr localMatches \<Rightarrow>
                    if localMatches \<noteq> [] then
                      (Inr \<lparr>status = 200,
                            body = Reply_products
                              (''Found '' @ decimal (length localMatches) @ '' matching product(s).'')
                              (map summary (take 20 localMatches))\<rparr>, [])
                    else delegate key fetch text)
         | _ \<Rightarrow> (Inl TypeError, [])))"

section \<open>Auxiliary notions and example data\<close>

text \<open>\<^verbatim>\<open>typeof v === "string"\<close>\<close>

fun is_string :: "jsprim \<Rightarrow> bool" where
  "is_string (JStr s) = True"
| "is_string v = False"

text \<open>The catalog of the scenario of the specification (the price rounded to an integer),
  and a second product.\<close>

definition jacket :: Product where
  "jacket =
     \<lparr>id_field = JNum 1, sku = JStr ''TXJ001'', name = JStr ''Blue Jacket'',
      brand = JStr ''Acme'', category = JStr ''Outerwear'', price = JNum 50, stock = JNum 10,
      description = JStr ''Warm blue jacket'', other_keys = []\<rparr>"

definition scarf :: Product where
  "scarf =
     \<lparr>id_field = JNum 2, sku = JStr ''TXS002'', name = JStr ''Red Scarf'', brand = JNull,
      category = JStr ''Accessories'', price = JNum 15, stock = JNum 0,
      description = JStr ''Wool scarf'', other_keys = [(''colour'', JStr ''red'')]\<rparr>"

text \<open>The jacket with \<^verbatim>\<open>description: null\<close>.\<close>

definition plain_jacket :: Product where
  "plain_jacket = jacket\<lparr>description := JNull\<rparr>"

text \<open>The value found by following \<^verbatim>\<open>candidates[0].content.parts[0].text\<close> from the
  parsed body, as the specification speaks of it: \<open>None\<close> as soon as a step of the path is
  absent, whatever the truthiness of the values on the way.\<close>

definition path_step ::
  "(json option \<Rightarrow> error + json option) \<Rightarrow> json option \<Rightarrow> json option" where
  "path_step get v = (case get v of Inl e \<Rightarrow> None | Inr r \<Rightarrow> r)"

definition text_path :: "json \<Rightarrow> json option" where
  "text_path data =
     path_step (get_named ''text'')
       (path_step get_first
         (path_step (get_named ''parts'')
           (path_step (get_named ''content'')
             (path_step get_first
               (path_step (get_named ''candidates'') (Some data))))))"

text \<open>The invariant of the chain of \<^verbatim>\<open>&&\<close>: either the chain so far, and its last
  operand, are the value of the path; or the chain has stopped at a falsy value, and the
  path is absent from there on.\<close>

definition chain_inv ::
  "error + json option \<Rightarrow> error + json option \<Rightarrow> json option \<Rightarrow> bool" where
  "chain_inv acc cur v \<longleftrightarrow>
     (acc = Inr v \<and> cur = Inr v) \<or> (\<exists>w. acc = Inr w \<and> \<not> value_truthy w \<and> v = None)"

text \<open>Two bodies of the delegate, one with a text and one with the empty text, and the
  delegates that answer with them; a catalog of 21 scarves.\<close>

definition hello_data :: json where
  "hello_data =
     JsonObj [(''candidates'',
       JsonArr [JsonObj [(''content'',
         JsonObj [(''parts'', JsonArr [JsonObj [(''text'', JsonStr ''Hello!'')]])])]])]"

definition answering_delegate :: "fetch_request \<Rightarrow> fetch_outcome" where
  "answering_delegate request = Responded 200 (Body [] (Some hello_data))"

definition empty_text_data :: json where
  "empty_text_data =
     JsonObj [(''candidates'',
       JsonArr [JsonObj [(''content'',
         JsonObj [(''parts'', JsonArr [JsonObj [(''text'', JsonStr [])]])])]])]"

definition empty_text_delegate :: "fetch_request \<Rightarrow> fetch_outcome" where
  "empty_text_delegate request = Responded 200 (Body [] (Some empty_text_data))"

definition crowd :: "Product list" where
  "crowd = replicate 21 scarf"

section \<open>Basic facts\<close>

lemma error_is_TypeError: "(e::error) = TypeError"
  by (cases e)

lemma includes_str_sublist: "includes_str h n \<longleftrightarrow> sublist n h"
  by (induction h) (simp_all add: sublist_Cons_right)

lemma includes_str_iff: "includes_str h n \<longleftrightarrow> (\<exists>pre post. h = pre @ n @ post)"
  by (simp add: includes_str_sublist sublist_def)

lemma includes_str_length: "includes_str h n \<Longrightarrow> length n \<le> length h"
  by (auto simp: includes_str_iff)

lemma length_toLowerCase [simp]: "length (toLowerCase s) = length s"
  by (simp add: toLowerCase_def)

lemma filter_throwing_Inr:
  "filter_throwing f xs = Inr ys \<Longrightarrow> ys = filter (\<lambda>x. f x = Inr True) xs"
proof (induction xs arbitrary: ys)
  case Nil
  then show ?case by simp
next
  case (Cons x xs)
  then show ?case
    by (auto split: sum.splits if_splits)
qed

lemma filter_throwing_Inl:
  "filter_throwing f xs = Inl TypeError \<longleftrightarrow> (\<exists>x\<in>set xs. f x = Inl TypeError)"
proof (induction xs)
  case Nil
  show ?case by simp
next
  case (Cons x xs)
  show ?case
  proof (cases "f x")
    case (Inl e)
    then show ?thesis by (simp add: error_is_TypeError [of e])
  next
    case (Inr b)
    with Cons show ?thesis
      by (auto split: sum.splits simp: error_is_TypeError)
  qed
qed

lemma call_toLowerCase_Inr:
  "call_toLowerCase v = Inr l \<longleftrightarrow> (\<exists>s. v = JStr s \<and> l = toLowerCase s)"
  by (cases v) auto

lemma call_toLowerCase_Inl: "call_toLowerCase v = Inl e \<longleftrightarrow> \<not> is_string v"
  by (cases v) (auto simp: error_is_TypeError [of e])

section \<open>The product query engine\<close>

lemma search_callback_True:
  assumes "search_callback s p = Inr True"
  shows "\<exists>text. (name p = JStr text \<or> description p = JStr text \<or> category p = JStr text) \<and>
           includes_str (toLowerCase text) s"
  using assms unfolding search_callback_def
  by (auto split: sum.splits if_splits simp: call_toLowerCase_Inr)

lemma search_callback_Inl:
  "search_callback s p = Inl TypeError \<longleftrightarrow>
     \<not> is_string (name p) \<or>
     (\<exists>n. name p = JStr n \<and> \<not> includes_str (toLowerCase n) s \<and>
          \<not> is_string (description p)) \<or>
     (\<exists>n d. name p = JStr n \<and> \<not> includes_str (toLowerCase n) s \<and>
            description p = JStr d \<and> \<not> includes_str (toLowerCase d) s \<and>
            \<not> is_string (category p))"
  unfolding search_callback_def
  by (cases "name p"; cases "description p"; cases "category p") auto

lemma search_Inl:
  "t \<noteq> [] \<Longrightarrow> search products (Some t) = Inl TypeError \<longleftrightarrow>
     (\<exists>p\<in>set products. search_callback (toLowerCase t) p = Inl TypeError)"
  by (simp add: search_def filter_throwing_Inl)

lemma search_returns_on_strings:
  assumes "\<forall>p\<in>set products.
      is_string (name p) \<and> is_string (description p) \<and> is_string (category p)"
    and "t \<noteq> []"
  shows "\<exists>result. search products (Some t) = Inr result"
proof -
  from assms have "search products (Some t) \<noteq> Inl TypeError"
    by (auto simp: search_Inl search_callback_Inl)
  then show ?thesis
    by (cases "search products (Some t)") (auto simp: error_is_TypeError)
qed

text \<open>
  Claim C4. Take a non-empty term \<open>t\<close>. Whenever the search for \<open>t\<close> returns, every product
  it returns has a string among its name, description and category whose lower-case form
  contains the lower-case form of \<open>t\<close> as a substring, and the products returned are a
  subsequence of the catalog: they come in catalog order. And the search does return on
  every catalog whose products have strings in these three fields.
\<close>

theorem search_results_contain_term:
  assumes "t \<noteq> []"
  shows "(\<forall>result. search products (Some t) = Inr result \<longrightarrow>
            (\<forall>p\<in>set result. \<exists>text.
               (name p = JStr text \<or> description p = JStr text \<or> category p = JStr text) \<and>
               (\<exists>pre post. toLowerCase text = pre @ toLowerCase t @ post)) \<and>
            subseq result products) \<and>
         ((\<forall>p\<in>set products.
              is_string (name p) \<and> is_string (description p) \<and> is_string (category p)) \<longrightarrow>
          (\<exists>result. search products (Some t) = Inr result))"
proof (intro conjI allI impI ballI)
  fix result p
  assume run: "search products (Some t) = Inr result" and p: "p \<in> set result"
  from run assms have "filter_throwing (search_callback (toLowerCase t)) products = Inr result"
    by (simp add: search_def)
  then have "result = filter (\<lambda>p. search_callback (toLowerCase t) p = Inr True) products"
    by (rule filter_throwing_Inr)
  with p have "search_callback (toLowerCase t) p = Inr True" by simp
  from search_callback_True [OF this]
  show "\<exists>text. (name p = JStr text \<or> description p = JStr text \<or> category p = JStr text) \<and>
          (\<exists>pre post. toLowerCase text = pre @ toLowerCase t @ post)"
    by (simp add: includes_str_iff)
next
  fix result
  assume "search products (Some t) = Inr result"
  with assms have "filter_throwing (search_callback (toLowerCase t)) products = Inr result"
    by (simp add: search_def)
  then have "result = filter (\<lambda>p. search_callback (toLowerCase t) p = Inr True) products"
    by (rule filter_throwing_Inr)
  then show "subseq result products" by simp
next
  assume "\<forall>p\<in>set products.
      is_string (name p) \<and> is_string (description p) \<and> is_string (category p)"
  then show "\<exists>result. search products (Some t) = Inr result"
    using assms by (rule search_returns_on_strings)
qed

theorem search_results_contain_term_witness:
  "''BLUE'' \<noteq> [] \<and> search [jacket, scarf] (Some ''BLUE'') = Inr [jacket] \<and>
   (\<exists>text.
       (name jacket = JStr text \<or> description jacket = JStr text \<or>
        category jacket = JStr text) \<and>
       (\<exists>pre post. toLowerCase text = pre @ toLowerCase ''BLUE'' @ post)) \<and>
   subseq [jacket] [jacket, scarf] \<and>
   is_string (name scarf) \<and> is_string (description scarf) \<and> is_string (category scarf)"
proof -
  have run: "search [jacket, scarf] (Some ''BLUE'') = Inr [jacket]"
    by code_simp
  have strings: "is_string (name scarf)" "is_string (description scarf)"
    "is_string (category scarf)"
    by (simp_all add: scarf_def)
  have "''BLUE'' \<noteq> []" by simp
  from search_results_contain_term [OF this, of "[jacket, scarf]"] run strings
  show ?thesis by simp
qed

text \<open>
  Claim C5. A search with the empty term, or with no term at all, returns the catalog as it
  is, for every catalog (the non-empty ones among them); so does the endpoint when the
  names are not asked for.
\<close>

theorem search_without_term_returns_catalog:
  "search products None = Inr products \<and> search products (Some []) = Inr products \<and>
   get_products products False None = Inr (Records products) \<and>
   get_products products False (Some []) = Inr (Records products)"
  by (simp add: search_def get_products_def)

lemma search_total_iff:
  "(\<forall>t. t \<noteq> [] \<longrightarrow> (\<exists>result. search products (Some t) = Inr result)) \<longleftrightarrow>
   (\<forall>p\<in>set products. is_string (name p) \<and> is_string (description p) \<and> is_string (category p))"
proof
  assume total: "\<forall>t. t \<noteq> [] \<longrightarrow> (\<exists>result. search products (Some t) = Inr result)"
  show "\<forall>p\<in>set products. is_string (name p) \<and> is_string (description p) \<and> is_string (category p)"
  proof (rule ccontr)
    assume "\<not> ?thesis"
    then obtain p where p: "p \<in> set products"
      and bad: "\<not> (is_string (name p) \<and> is_string (description p) \<and> is_string (category p))"
      by blast
    define t where "t = replicate (Suc (length (String (name p)) + length (String (description p)))) (CHR ''z'')"
    have t: "t \<noteq> []" by (simp add: t_def)
    have long: "\<not> includes_str (toLowerCase s) (toLowerCase t)"
      if "length s \<le> length (String (name p)) + length (String (description p))" for s
      using includes_str_length [of "toLowerCase s" "toLowerCase t"] that by (auto simp: t_def)
    have "search_callback (toLowerCase t) p = Inl TypeError"
      unfolding search_callback_Inl using bad long
      by (cases "name p"; cases "description p"; cases "category p") auto
    with p t have "search products (Some t) = Inl TypeError"
      by (auto simp: search_Inl)
    with total t show False by auto
  qed
next
  assume strings: "\<forall>p\<in>set products. is_string (name p) \<and> is_string (description p) \<and> is_string (category p)"
  show "\<forall>t. t \<noteq> [] \<longrightarrow> (\<exists>result. search products (Some t) = Inr result)"
    using strings by (blast intro: search_returns_on_strings)
qed

text \<open>
  Claim C9, amended. The callback of the search applies \<^verbatim>\<open>toLowerCase\<close> to the name, then
  to the description, then to the category, with no guard, and stops at the first of them
  that contains the term. So a search with a non-empty term raises a \<^verbatim>\<open>TypeError\<close>
  exactly when the catalog has a product for which the callback reaches a field that is no
  string: the name; or the description, the name not containing the term; or the category,
  neither name nor description containing it. A search is defined for every non-empty term
  exactly on the catalogs all of whose products have strings in the three fields. The
  haystack of the fuzzy lookup puts the empty string for a falsy brand, description or
  category, and converts the name as it is (an absent name reads \<^verbatim>\<open>undefined\<close>).
\<close>

theorem search_raises_where_it_reaches_a_non_string:
  "(t \<noteq> [] \<longrightarrow>
      (search products (Some t) = Inl TypeError \<longleftrightarrow>
        (\<exists>p\<in>set products.
           \<not> is_string (name p) \<or>
           (\<exists>n. name p = JStr n \<and> \<not> includes_str (toLowerCase n) (toLowerCase t) \<and>
                \<not> is_string (description p)) \<or>
           (\<exists>n d. name p = JStr n \<and> \<not> includes_str (toLowerCase n) (toLowerCase t) \<and>
                  description p = JStr d \<and> \<not> includes_str (toLowerCase d) (toLowerCase t) \<and>
                  \<not> is_string (category p))))) \<and>
   ((\<forall>t. t \<noteq> [] \<longrightarrow> (\<exists>result. search products (Some t) = Inr result)) \<longleftrightarrow>
    (\<forall>p\<in>set products.
       is_string (name p) \<and> is_string (description p) \<and> is_string (category p))) \<and>
   hay q =
     toLowerCase
       (String (name q) @ '' '' @ (if truthy (brand q) then String (brand q) else []) @ '' '' @
        (if truthy (description q) then String (description q) else []) @ '' '' @
        (if truthy (category q) then String (category q) else []))"
proof (intro conjI impI)
  assume "t \<noteq> []"
  then show "search products (Some t) = Inl TypeError \<longleftrightarrow>
        (\<exists>p\<in>set products.
           \<not> is_string (name p) \<or>
           (\<exists>n. name p = JStr n \<and> \<not> includes_str (toLowerCase n) (toLowerCase t) \<and>
                \<not> is_string (description p)) \<or>
           (\<exists>n d. name p = JStr n \<and> \<not> includes_str (toLowerCase n) (toLowerCase t) \<and>
                  description p = JStr d \<and> \<not> includes_str (toLowerCase d) (toLowerCase t) \<and>
                  \<not> is_string (category p)))"
    by (simp add: search_Inl search_callback_Inl)
next
  show "(\<forall>t. t \<noteq> [] \<longrightarrow> (\<exists>result. search products (Some t) = Inr result)) \<longleftrightarrow>
    (\<forall>p\<in>set products.
       is_string (name p) \<and> is_string (description p) \<and> is_string (category p))"
    by (rule search_total_iff)
next
  show "hay q =
     toLowerCase
       (String (name q) @ '' '' @ (if truthy (brand q) then String (brand q) else []) @ '' '' @
        (if truthy (description q) then String (description q) else []) @ '' '' @
        (if truthy (category q) then String (category q) else []))"
    by (simp add: hay_def or_empty_def)
qed

theorem search_raises_where_it_reaches_a_non_string_witness:
  "''scarf'' \<noteq> [] \<and> search [plain_jacket] (Some ''scarf'') = Inl TypeError \<and>
   (\<exists>result. search [jacket, scarf] (Some ''wool'') = Inr result) \<and>
   hay plain_jacket = ''blue jacket acme  outerwear''"
proof -
  have "name plain_jacket = JStr ''Blue Jacket''" "description plain_jacket = JNull"
    by (simp_all add: plain_jacket_def jacket_def)
  moreover have "\<not> includes_str (toLowerCase ''Blue Jacket'') (toLowerCase ''scarf'')"
    by code_simp
  moreover have "\<forall>p\<in>set [jacket, scarf].
       is_string (name p) \<and> is_string (description p) \<and> is_string (category p)"
    by (simp add: jacket_def scarf_def)
  moreover have "toLowerCase
       (String (name plain_jacket) @ '' '' @ (if truthy (brand plain_jacket) then String (brand plain_jacket) else []) @ '' '' @
        (if truthy (description plain_jacket) then String (description plain_jacket) else []) @ '' '' @
        (if truthy (category plain_jacket) then String (category plain_jacket) else [])) = ''blue jacket acme  outerwear''"
    by code_simp
  ultimately show ?thesis
    using search_raises_where_it_reaches_a_non_string
      [of "''scarf''" "[plain_jacket]" plain_jacket]
      search_raises_where_it_reaches_a_non_string
      [of "''wool''" "[jacket, scarf]" jacket]
    by auto
qed

text \<open>
  Claim C9 as stated fails: the jacket with a \<^verbatim>\<open>null\<close> description is found by the
  term \<^verbatim>\<open>blue\<close>, which its name contains, and no error is raised.
\<close>

theorem search_returns_despite_null_description:
  "description plain_jacket = JNull \<and> search [plain_jacket] (Some ''blue'') = Inr [plain_jacket]"
  by code_simp

section \<open>Direct lookup\<close>

lemma digit_unit_zero: "d < 10 \<Longrightarrow> digit_unit d = CHR ''0'' \<Longrightarrow> d = 0"
proof -
  assume d: "d < 10" and eq: "digit_unit d = CHR ''0''"
  from eq have "(of_char (char_of (48 + d)) :: nat) = of_char CHR ''0''"
    by (simp add: digit_unit_def)
  with d show "d = 0" by simp
qed

lemma decimal_not_empty: "decimal n \<noteq> []"
  by (subst decimal.simps) simp

lemma decimal_hd_zero: "hd (decimal n) = CHR ''0'' \<Longrightarrow> n = 0"
proof (induction n rule: decimal.induct)
  case (1 n)
  show ?case
  proof (cases "n < 10")
    case True
    with "1.prems" show ?thesis
      by (subst (asm) decimal.simps) (simp add: digit_unit_zero)
  next
    case False
    with "1.prems" have "hd (decimal (n div 10)) = CHR ''0''"
      by (subst (asm) decimal.simps) (simp add: decimal_not_empty)
    with False "1.IH" have "n div 10 = 0" by simp
    with False show ?thesis by simp
  qed
qed

lemma String_leading_zero:
  assumes "String v = CHR ''0'' # rest" and "rest \<noteq> []"
  shows "is_string v"
proof (cases v)
  case (JNum n)
  show ?thesis
  proof (cases "n < 0")
    case True
    with JNum assms show ?thesis by simp
  next
    case False
    with JNum assms have eq: "decimal (nat n) = CHR ''0'' # rest" by simp
    then have "hd (decimal (nat n)) = CHR ''0''" by simp
    then have "nat n = 0" by (rule decimal_hd_zero)
    with eq assms(2) show ?thesis
      by (simp add: decimal.simps [of 0])
  qed
qed (use assms in \<open>auto split: if_splits\<close>)

lemma sku_callback_True:
  assumes "sku_callback s p = Inr True"
  shows "String (id_field p) = s \<or> (\<exists>t. sku p = JStr t \<and> includes_str (toLowerCase t) s)"
  using assms unfolding sku_callback_def
  by (auto split: if_splits sum.splits simp: call_toLowerCase_Inr)

text \<open>
  Claim C10. Let no product have a string as its id (the ids are integers, or \<^verbatim>\<open>null\<close>),
  and take a digit run with a leading zero: \<^verbatim>\<open>0\<close> followed by at least one more digit.
  No product's id, written as a string, equals the run; so a message without a SKU-like
  token whose standalone digit run it is (\<^verbatim>\<open>001\<close> for one) gets no direct-lookup match.
  Where the run comes from a SKU-like token, every product the SKU filter finds has a
  string as its SKU whose lower-case form contains the run.
\<close>

theorem leading_zero_run_matches_no_id:
  assumes ids: "\<forall>p\<in>set products. \<not> is_string (id_field p)" and rest: "rest \<noteq> []"
  shows "filter (\<lambda>p. String (id_field p) = CHR ''0'' # rest) products = [] \<and>
    (skuMatch message = None \<longrightarrow> idMatch message = Some (CHR ''0'' # rest) \<longrightarrow>
       direct_lookup products message = Inr []) \<and>
    (\<forall>tok found. skuMatch message = Some tok \<longrightarrow> filter is_digit tok = CHR ''0'' # rest \<longrightarrow>
       sku_lookup products message = Inr found \<longrightarrow>
       (\<forall>p\<in>set found. \<exists>s. sku p = JStr s \<and> includes_str (toLowerCase s) (CHR ''0'' # rest)))"
proof -
  have no_id: "String (id_field p) \<noteq> CHR ''0'' # rest" if "p \<in> set products" for p
    using String_leading_zero [of "id_field p" rest] ids rest that by blast
  then have none: "filter (\<lambda>p. String (id_field p) = CHR ''0'' # rest) products = []"
    by (simp add: filter_empty_conv)
  have "direct_lookup products message = Inr []"
    if "skuMatch message = None" "idMatch message = Some (CHR ''0'' # rest)"
    using that none by (simp add: direct_lookup_def sku_lookup_def id_lookup_def)
  moreover have "\<exists>s. sku p = JStr s \<and> includes_str (toLowerCase s) (CHR ''0'' # rest)"
    if "skuMatch message = Some tok" "filter is_digit tok = CHR ''0'' # rest"
      "sku_lookup products message = Inr found" "p \<in> set found" for tok found p
  proof -
    from that(1-3) have "filter_throwing (sku_callback (CHR ''0'' # rest)) products = Inr found"
      by (simp add: sku_lookup_def)
    from filter_throwing_Inr [OF this] that(4)
    have "p \<in> set products" and "sku_callback (CHR ''0'' # rest) p = Inr True"
      by simp_all
    with no_id sku_callback_True show ?thesis by blast
  qed
  ultimately show ?thesis using none by blast
qed

theorem leading_zero_run_matches_no_id_witness:
  "\<not> is_string (id_field jacket) \<and> \<not> is_string (id_field scarf) \<and> ''01'' \<noteq> [] \<and>
   skuMatch ''001'' = None \<and> idMatch ''001'' = Some ''001'' \<and>
   direct_lookup [jacket, scarf] ''001'' = Inr [] \<and>
   skuMatch ''sku-001'' = Some ''sku-001'' \<and> filter is_digit ''sku-001'' = ''001'' \<and>
   sku_lookup [jacket, scarf] ''sku-001'' = Inr [jacket] \<and>
   (\<exists>s. sku jacket = JStr s \<and> includes_str (toLowerCase s) ''001'')"
proof -
  have ids: "\<forall>p\<in>set [jacket, scarf]. \<not> is_string (id_field p)"
    by (simp add: jacket_def scarf_def)
  have runs: "skuMatch ''001'' = None" "idMatch ''001'' = Some ''001''"
    "skuMatch ''sku-001'' = Some ''sku-001''" "filter is_digit ''sku-001'' = ''001''"
    "sku_lookup [jacket, scarf] ''sku-001'' = Inr [jacket]"
    by code_simp+
  from leading_zero_run_matches_no_id [OF ids, of "''01''" "''001''"] runs(1,2)
  have "direct_lookup [jacket, scarf] ''001'' = Inr []" by simp
  moreover from leading_zero_run_matches_no_id [OF ids, of "''01''" "''sku-001''"] runs(3-5)
  have "\<exists>s. sku jacket = JStr s \<and> includes_str (toLowerCase s) ''001''" by simp
  ultimately show ?thesis using ids runs by simp
qed

text \<open>
  Claim C2, amended. The fallback to a standalone run of one to six digits, matched against
  the id by equality only, is applied exactly when the SKU step has left no match: when no
  SKU-like token matched, and also when one matched and its digits matched no product.
  When the digits of the token matched a product, the matches of the token are the result
  and no fallback occurs.
\<close>

theorem id_fallback_follows_empty_sku_lookup:
  "(skuMatch message = None \<longrightarrow>
      direct_lookup products message = Inr (id_lookup products message)) \<and>
   (\<forall>tok found. skuMatch message = Some tok \<longrightarrow>
      filter_throwing (sku_callback (filter is_digit tok)) products = Inr found \<longrightarrow>
      direct_lookup products message =
        Inr (if found = [] then id_lookup products message else found)) \<and>
   id_lookup products message =
     (case idMatch message of
        None \<Rightarrow> []
      | Some d \<Rightarrow> filter (\<lambda>p. String (id_field p) = d) products)"
  by (simp add: direct_lookup_def sku_lookup_def id_lookup_def)

theorem id_fallback_follows_empty_sku_lookup_witness:
  "skuMatch ''2'' = None \<and> direct_lookup [jacket, scarf] ''2'' = Inr [scarf] \<and>
   skuMatch ''2 sku-001'' = Some ''sku-001'' \<and>
   filter_throwing (sku_callback (filter is_digit ''sku-001'')) [jacket, scarf] = Inr [jacket] \<and>
   id_lookup [jacket, scarf] ''2 sku-001'' = [scarf] \<and>
   direct_lookup [jacket, scarf] ''2 sku-001'' = Inr [jacket] \<and>
   skuMatch ''2 sku-999'' = Some ''sku-999'' \<and>
   filter_throwing (sku_callback (filter is_digit ''sku-999'')) [jacket, scarf] = Inr [] \<and>
   direct_lookup [jacket, scarf] ''2 sku-999'' = Inr [scarf]"
proof -
  have runs: "skuMatch ''2'' = None" "id_lookup [jacket, scarf] ''2'' = [scarf]"
    "skuMatch ''2 sku-001'' = Some ''sku-001''"
    "filter_throwing (sku_callback (filter is_digit ''sku-001'')) [jacket, scarf] = Inr [jacket]"
    "id_lookup [jacket, scarf] ''2 sku-001'' = [scarf]"
    "skuMatch ''2 sku-999'' = Some ''sku-999''"
    "filter_throwing (sku_callback (filter is_digit ''sku-999'')) [jacket, scarf] = Inr []"
    "id_lookup [jacket, scarf] ''2 sku-999'' = [scarf]"
    by code_simp+
  note fallback = id_fallback_follows_empty_sku_lookup
  have "direct_lookup [jacket, scarf] ''2'' = Inr [scarf]"
    using fallback [of "''2''" "[jacket, scarf]"] by (simp only: runs simp_thms)
  moreover have "direct_lookup [jacket, scarf] ''2 sku-001'' = Inr [jacket]"
    using fallback [of "''2 sku-001''" "[jacket, scarf]"] by (simp only: runs) simp
  moreover have "direct_lookup [jacket, scarf] ''2 sku-999'' = Inr [scarf]"
    using fallback [of "''2 sku-999''" "[jacket, scarf]"] by (simp only: runs) simp
  ultimately show ?thesis
    by (simp only: runs simp_thms)
qed

text \<open>
  Claim C2 as stated fails: in \<^verbatim>\<open>1 sku-999\<close> a SKU-like token matches, its digits match
  no product of the catalog, and the fallback then finds the jacket by the digit run
  \<^verbatim>\<open>1\<close>.
\<close>

theorem id_fallback_after_sku_token:
  "skuMatch ''1 sku-999'' = Some ''sku-999'' \<and>
   sku_lookup [jacket, scarf] ''1 sku-999'' = Inr [] \<and>
   idMatch ''1 sku-999'' = Some ''1'' \<and>
   direct_lookup [jacket, scarf] ''1 sku-999'' = Inr [jacket]"
  by code_simp

section \<open>The chat router\<close>

lemma list_all_trigger_not_empty: "list_all_trigger (toLowerCase text) \<Longrightarrow> text \<noteq> []"
  by (auto simp: list_all_trigger_def toLowerCase_def)

lemma fuzzy_lookup_empty_message: "fuzzy_lookup products [] = []"
  by (simp add: fuzzy_lookup_def fuzzy_callback_def words_def alphaTokens_def split_ws_def)

lemma chat_text:
  "text \<noteq> [] \<Longrightarrow>
   chat products key fetch (JStr text) =
     (if list_all_trigger (toLowerCase text) then
        (Inr \<lparr>status = 200,
              body = Reply_names ''Here are the product names:'' (map name products)\<rparr>, [])
      else
        (case local_lookup products text of
           Inl e \<Rightarrow> (Inl e, [])
         | Inr localMatches \<Rightarrow>
             if localMatches \<noteq> [] then
               (Inr \<lparr>status = 200,
                     body = Reply_products
                       (''Found '' @ decimal (length localMatches) @ '' matching product(s).'')
                       (map summary (take 20 localMatches))\<rparr>, [])
             else delegate key fetch text))"
  by (simp add: chat_def)

text \<open>
  Claim C3. A message whose lower-case form contains one of the phrases of the list-all
  trigger is answered with the fixed confirmation and the names of all products, in catalog
  order, whatever else it contains: also when it holds a SKU-like token that would find a
  product, since the lookup comes after this branch has returned. No request goes to the
  delegate.
\<close>

theorem list_all_wins_over_lookup:
  assumes "list_all_trigger (toLowerCase text)"
  shows "chat products key fetch (JStr text) =
    (Inr \<lparr>status = 200,
          body = Reply_names ''Here are the product names:'' (map name products)\<rparr>, [])"
  using assms list_all_trigger_not_empty [OF assms] by (simp add: chat_text)

theorem list_all_wins_over_lookup_witness:
  "list_all_trigger (toLowerCase ''Product list for SKU-001'') \<and>
   skuMatch ''Product list for SKU-001'' = Some ''SKU-001'' \<and>
   direct_lookup [jacket, scarf] ''Product list for SKU-001'' = Inr [jacket] \<and>
   chat [jacket, scarf] None answering_delegate (JStr ''Product list for SKU-001'') =
    (Inr \<lparr>status = 200,
          body = Reply_names ''Here are the product names:''
                   [JStr ''Blue Jacket'', JStr ''Red Scarf'']\<rparr>, [])"
proof -
  have trigger: "list_all_trigger (toLowerCase ''Product list for SKU-001'')"
    by code_simp
  have lookup: "skuMatch ''Product list for SKU-001'' = Some ''SKU-001''"
    "direct_lookup [jacket, scarf] ''Product list for SKU-001'' = Inr [jacket]"
    by code_simp+
  have names: "map name [jacket, scarf] = [JStr ''Blue Jacket'', JStr ''Red Scarf'']"
    by (simp add: jacket_def scarf_def)
  from list_all_wins_over_lookup [OF trigger, of "[jacket, scarf]" None answering_delegate]
  show ?thesis
    by (simp only: names trigger lookup simp_thms)
qed

text \<open>
  Claim C7. Let a (non-empty) message contain no list-all trigger and let both the direct
  and the fuzzy lookup find nothing for it. If the key of the delegate is not configured
  (the variable is unset, or empty), the handler responds with status 500 and the error
  \<^verbatim>\<open>Gemini API key missing. Add GEMINI_API_KEY in .env file.\<close>, and makes no request to
  the delegate, whatever the delegate would have answered.
\<close>

theorem missing_key_fails_with_500:
  assumes "text \<noteq> []" and "\<not> list_all_trigger (toLowerCase text)"
    and "direct_lookup products text = Inr []"
    and "fuzzy_lookup products (toLowerCase text) = []"
    and "key_missing key"
  shows "chat products key fetch (JStr text) =
    (Inr \<lparr>status = 500,
          body = Error_body ''Gemini API key missing. Add GEMINI_API_KEY in .env file.''\<rparr>, [])"
  using assms
  by (auto simp: chat_text local_lookup_def delegate_def key_missing_def split: option.splits)

theorem missing_key_fails_with_500_witness:
  "''asdkjalksd'' \<noteq> [] \<and> \<not> list_all_trigger (toLowerCase ''asdkjalksd'') \<and>
   direct_lookup [jacket] ''asdkjalksd'' = Inr [] \<and>
   fuzzy_lookup [jacket] (toLowerCase ''asdkjalksd'') = [] \<and> key_missing None \<and>
   chat [jacket] None answering_delegate (JStr ''asdkjalksd'') =
    (Inr \<lparr>status = 500,
          body = Error_body ''Gemini API key missing. Add GEMINI_API_KEY in .env file.''\<rparr>, [])"
proof -
  have facts: "''asdkjalksd'' \<noteq> []" "\<not> list_all_trigger (toLowerCase ''asdkjalksd'')"
    "direct_lookup [jacket] ''asdkjalksd'' = Inr []"
    "fuzzy_lookup [jacket] (toLowerCase ''asdkjalksd'') = []" "key_missing None"
    by code_simp+
  from missing_key_fails_with_500 [OF facts, of answering_delegate] facts
  show ?thesis by (simp only: simp_thms not_False_eq_True)
qed

text \<open>
  Claim C6. When a message without a list-all trigger gets no direct-lookup match and the
  fuzzy lookup finds one product or more, the reply lists the summaries of the first 20
  products found, never more than 20, while its text reports the number of all the
  products found.
\<close>

theorem fuzzy_reply_shows_at_most_20:
  assumes "\<not> list_all_trigger (toLowerCase text)"
    and "direct_lookup products text = Inr []"
    and "fuzzy_lookup products (toLowerCase text) = found"
    and "found \<noteq> []"
  shows "chat products key fetch (JStr text) =
      (Inr \<lparr>status = 200,
            body = Reply_products
              (''Found '' @ decimal (length found) @ '' matching product(s).'')
              (map summary (take 20 found))\<rparr>, []) \<and>
    length (map summary (take 20 found)) = min 20 (length found) \<and>
    length (map summary (take 20 found)) \<le> 20"
proof -
  from assms(3,4) have "text \<noteq> []"
    using fuzzy_lookup_empty_message [of products] by (auto simp: toLowerCase_def)
  with assms show ?thesis
    by (simp add: chat_text local_lookup_def min.commute)
qed

theorem fuzzy_reply_shows_at_most_20_witness:
  "\<not> list_all_trigger (toLowerCase ''Wool'') \<and> direct_lookup crowd ''Wool'' = Inr [] \<and>
   fuzzy_lookup crowd (toLowerCase ''Wool'') = crowd \<and> crowd \<noteq> [] \<and> length crowd = 21 \<and>
   chat crowd None answering_delegate (JStr ''Wool'') =
      (Inr \<lparr>status = 200,
            body = Reply_products ''Found 21 matching product(s).''
              (replicate 20 (summary scarf))\<rparr>, []) \<and>
   length (replicate 20 (summary scarf)) = 20"
proof -
  have single: "\<not> list_all_trigger (toLowerCase ''Wool'')" "skuMatch ''Wool'' = None"
    "idMatch ''Wool'' = None" "fuzzy_callback (toLowerCase ''Wool'') scarf"
    "decimal 21 = ''21''"
    by code_simp+
  have direct: "direct_lookup crowd ''Wool'' = Inr []"
    by (simp only: direct_lookup_def sku_lookup_def id_lookup_def single) simp
  have fuzzy: "fuzzy_lookup crowd (toLowerCase ''Wool'') = crowd"
    by (simp only: fuzzy_lookup_def crowd_def filter_replicate single if_True)
  have crowd: "crowd \<noteq> []" "length crowd = 21"
    "map summary (take 20 crowd) = replicate 20 (summary scarf)"
    by (simp_all add: crowd_def)
  from fuzzy_reply_shows_at_most_20 [OF single(1) direct fuzzy crowd(1), of None answering_delegate]
  show ?thesis
    by (simp only: single direct fuzzy crowd simp_thms length_replicate append.simps)
qed

section \<open>The delegate\<close>

lemma get_named_truthy: "value_truthy v \<Longrightarrow> get_named k v = Inr (path_step (get_named k) v)"
  by (cases "(k, v)" rule: get_named.cases) (simp_all add: path_step_def value_truthy_def)

lemma get_first_truthy: "value_truthy v \<Longrightarrow> get_first v = Inr (path_step get_first v)"
  by (cases v rule: get_first.cases) (simp_all add: path_step_def value_truthy_def)

lemma path_step_get_named_falsy: "\<not> value_truthy v \<Longrightarrow> path_step (get_named k) v = None"
  by (cases "(k, v)" rule: get_named.cases) (simp_all add: path_step_def value_truthy_def)

lemma path_step_get_first_falsy: "\<not> value_truthy v \<Longrightarrow> path_step get_first v = None"
  by (cases v rule: get_first.cases) (simp_all add: path_step_def value_truthy_def)

lemma chain_inv_step:
  assumes "chain_inv acc cur v" and "g = get_named k \<or> g = get_first"
  shows "chain_inv (and_also acc (then_get cur g)) (then_get cur g) (path_step g v)"
proof -
  have truthy: "g w = Inr (path_step g w)" if "value_truthy w" for w
    using assms(2) that get_named_truthy get_first_truthy by auto
  have falsy: "path_step g w = None" if "\<not> value_truthy w" for w
    using assms(2) that path_step_get_named_falsy path_step_get_first_falsy by auto
  from assms(1) consider (live) "acc = Inr v" "cur = Inr v" "value_truthy v"
    | (stops) "acc = Inr v" "cur = Inr v" "\<not> value_truthy v"
    | (stopped) w where "acc = Inr w" "\<not> value_truthy w" "v = None"
    unfolding chain_inv_def by blast
  then show ?thesis
  proof cases
    case live
    then show ?thesis
      by (simp add: chain_inv_def and_also_def then_get_def truthy)
  next
    case stops
    then show ?thesis
      by (simp add: chain_inv_def and_also_def falsy)
  next
    case stopped
    then have "path_step g v = None"
      using falsy [of None] by (simp add: value_truthy_def)
    with stopped show ?thesis
      by (simp add: chain_inv_def and_also_def)
  qed
qed

lemma chain_inv_guarded_text: "chain_inv (guarded_text data) (data_text data) (text_path data)"
proof -
  have 0: "chain_inv (Inr (Some data)) (Inr (Some data)) (Some data)"
    by (simp add: chain_inv_def)
  have c: "data_candidates data = then_get (Inr (Some data)) (get_named ''candidates'')"
    by (simp add: data_candidates_def then_get_def)
  note step = chain_inv_step
  have 1: "chain_inv (and_also (Inr (Some data)) (data_candidates data)) (data_candidates data)
      (path_step (get_named ''candidates'') (Some data))"
    unfolding c by (rule step [OF 0, of _ "''candidates''"]) simp
  have 2: "chain_inv (and_also (and_also (Inr (Some data)) (data_candidates data))
        (data_candidates_0 data)) (data_candidates_0 data)
      (path_step get_first (path_step (get_named ''candidates'') (Some data)))"
    unfolding data_candidates_0_def by (rule step [OF 1, of _ "[]"]) simp
  have 3: "chain_inv (and_also (and_also (and_also (Inr (Some data)) (data_candidates data))
        (data_candidates_0 data)) (data_content data)) (data_content data)
      (path_step (get_named ''content'')
        (path_step get_first (path_step (get_named ''candidates'') (Some data))))"
    unfolding data_content_def by (rule step [OF 2, of _ "''content''"]) simp
  have 4: "chain_inv (and_also (and_also (and_also (and_also (Inr (Some data))
        (data_candidates data)) (data_candidates_0 data)) (data_content data))
        (data_parts data)) (data_parts data)
      (path_step (get_named ''parts'') (path_step (get_named ''content'')
        (path_step get_first (path_step (get_named ''candidates'') (Some data)))))"
    unfolding data_parts_def by (rule step [OF 3, of _ "''parts''"]) simp
  have 5: "chain_inv (and_also (and_also (and_also (and_also (and_also (Inr (Some data))
        (data_candidates data)) (data_candidates_0 data)) (data_content data))
        (data_parts data)) (data_parts_0 data)) (data_parts_0 data)
      (path_step get_first (path_step (get_named ''parts'') (path_step (get_named ''content'')
        (path_step get_first (path_step (get_named ''candidates'') (Some data))))))"
    unfolding data_parts_0_def by (rule step [OF 4, of _ "[]"]) simp
  show ?thesis
    unfolding guarded_text_def text_path_def data_text_def
    by (rule step [OF 5, of _ "''text''"]) simp
qed

lemma aiText_eq:
  "aiText data =
     Inr (case text_path data of
            None \<Rightarrow> JsonStr ''No response.''
          | Some v \<Rightarrow> if json_truthy v then v else JsonStr ''No response.'')"
  using chain_inv_guarded_text [of data] unfolding chain_inv_def aiText_def
  by (auto simp: value_truthy_def split: option.splits)

text \<open>
  Claim C8, amended. When the delegate answers with a success status and a body that
  parses, the handler replies with status 200. The reply is the value at
  \<^verbatim>\<open>candidates[0].content.parts[0].text\<close> when that path is present and its value is
  truthy; when the path is absent at some level, and also when its value is falsy (the
  empty text, \<^verbatim>\<open>null\<close>, \<^verbatim>\<open>false\<close>, \<^verbatim>\<open>0\<close>), the reply is the placeholder
  \<^verbatim>\<open>No response.\<close>; the extraction never fails.
\<close>

theorem reply_is_truthy_text_or_placeholder:
  assumes "text \<noteq> []" and "\<not> list_all_trigger (toLowerCase text)"
    and "local_lookup products text = Inr []"
    and "key = Some k" and "k \<noteq> []"
    and "fetch (gemini_request k text) = Responded st (Body raw (Some data))" and "ok st"
  shows "chat products key fetch (JStr text) =
    (Inr \<lparr>status = 200,
          body = Reply_text
            (case text_path data of
               None \<Rightarrow> JsonStr ''No response.''
             | Some v \<Rightarrow> if json_truthy v then v else JsonStr ''No response.'')\<rparr>,
     [gemini_request k text])"
  using assms by (simp add: chat_text delegate_def aiText_eq)

theorem reply_is_truthy_text_or_placeholder_witness:
  "''hello'' \<noteq> [] \<and> \<not> list_all_trigger (toLowerCase ''hello'') \<and>
   local_lookup [jacket] ''hello'' = Inr [] \<and> ''k'' \<noteq> [] \<and>
   answering_delegate (gemini_request ''k'' ''hello'') = Responded 200 (Body [] (Some hello_data)) \<and>
   ok 200 \<and> text_path hello_data = Some (JsonStr ''Hello!'') \<and>
   chat [jacket] (Some ''k'') answering_delegate (JStr ''hello'') =
     (Inr \<lparr>status = 200, body = Reply_text (JsonStr ''Hello!'')\<rparr>, [gemini_request ''k'' ''hello'']) \<and>
   text_path (JsonObj [(''candidates'', JsonArr [])]) = None \<and>
   aiText (JsonObj [(''candidates'', JsonArr [])]) = Inr (JsonStr ''No response.'')"
proof -
  have facts: "''hello'' \<noteq> []" "\<not> list_all_trigger (toLowerCase ''hello'')"
    "local_lookup [jacket] ''hello'' = Inr []" "''k'' \<noteq> []"
    "answering_delegate (gemini_request ''k'' ''hello'') = Responded 200 (Body [] (Some hello_data))"
    "ok 200"
    by code_simp+
  have paths: "text_path hello_data = Some (JsonStr ''Hello!'')"
    "text_path (JsonObj [(''candidates'', JsonArr [])]) = None"
    "aiText (JsonObj [(''candidates'', JsonArr [])]) = Inr (JsonStr ''No response.'')"
    by code_simp+
  have "chat [jacket] (Some ''k'') answering_delegate (JStr ''hello'') =
     (Inr \<lparr>status = 200, body = Reply_text (JsonStr ''Hello!'')\<rparr>, [gemini_request ''k'' ''hello''])"
    using reply_is_truthy_text_or_placeholder
      [of "''hello''" "[jacket]" "Some ''k''" "''k''" answering_delegate 200 "[]" hello_data,
       OF facts(1-3) refl facts(4-6)]
    by (simp only: paths option.simps json_truthy.simps list.simps if_True simp_thms)
  then show ?thesis
    by (intro conjI facts paths)
qed

text \<open>
  Claim C8 as stated fails: for a body whose first candidate's first content part has the
  empty text, the path is present at every level, and the reply is the placeholder, not
  the text extracted.
\<close>

theorem empty_text_is_replaced:
  "text_path empty_text_data = Some (JsonStr []) \<and>
   chat [jacket] (Some ''k'') empty_text_delegate (JStr ''hello'') =
     (Inr \<lparr>status = 200, body = Reply_text (JsonStr ''No response.'')\<rparr>,
      [gemini_request ''k'' ''hello''])"
  by code_simp

section \<open>The empty-message guard\<close>

lemma delegate_status:
  assumes "fst (delegate key fetch msg) = Inr r"
  shows "status r = 200 \<or> status r = 500 \<or> status r = 502"
proof (cases key)
  case None
  with assms show ?thesis by (auto simp: delegate_def)
next
  case (Some k)
  show ?thesis
  proof (cases "k = []")
    case True
    with Some assms show ?thesis by (auto simp: delegate_def)
  next
    case False
    show ?thesis
    proof (cases "fetch (gemini_request k msg)")
      case Rejected
      with Some False assms show ?thesis
        by (auto simp: delegate_def request_failed_def Let_def)
    next
      case (Responded st b)
      show ?thesis
      proof (cases b)
        case Unreadable
        with Responded Some False assms show ?thesis
          by (auto simp: delegate_def request_failed_def Let_def)
      next
        case (Body raw parsed)
        with Responded Some False assms show ?thesis
          by (cases parsed; cases "ok st")
            (auto simp: delegate_def request_failed_def Let_def split: sum.splits)
      qed
    qed
  qed
qed

lemma chat_status:
  assumes "fst (chat products key fetch v) = Inr r"
  shows "(status r = 400 \<and> \<not> truthy v) \<or> status r = 200 \<or> status r = 500 \<or> status r = 502"
proof (cases "truthy v")
  case False
  with assms show ?thesis by (auto simp: chat_def)
next
  case True
  show ?thesis
  proof (cases v)
    case (JStr msg)
    with True have msg: "msg \<noteq> []" by simp
    show ?thesis
    proof (cases "list_all_trigger (toLowerCase msg)")
      case True
      with assms JStr msg show ?thesis by (auto simp: chat_text)
    next
      case no_list: False
      show ?thesis
      proof (cases "local_lookup products msg")
        case (Inl e)
        with assms JStr msg no_list show ?thesis by (simp add: chat_text)
      next
        case (Inr found)
        with assms JStr msg no_list delegate_status [of key fetch msg r] show ?thesis
          by (cases "found = []") (auto simp: chat_text)
      qed
    qed
  qed (use True assms in \<open>auto simp: chat_def\<close>)
qed

text \<open>
  Claim C1, amended. A message that is empty or absent (or another falsy value) is answered
  with status 400 and the error \<^verbatim>\<open>Message is required\<close>, whatever the catalog, the
  key and the delegate are: nothing is classified. No other message is answered with
  status 400; a message of white space only passes the guard and is classified like any
  other message.
\<close>

theorem falsy_message_is_rejected:
  "(\<not> truthy v \<longrightarrow>
      chat products key fetch v =
        (Inr \<lparr>status = 400, body = Error_body ''Message is required''\<rparr>, [])) \<and>
   (truthy v \<longrightarrow> (\<forall>r. fst (chat products key fetch v) = Inr r \<longrightarrow> status r \<noteq> 400))"
proof (intro conjI impI allI)
  assume "\<not> truthy v"
  then show "chat products key fetch v =
        (Inr \<lparr>status = 400, body = Error_body ''Message is required''\<rparr>, [])"
    by (simp add: chat_def)
next
  fix r
  assume "truthy v" and "fst (chat products key fetch v) = Inr r"
  with chat_status [of products key fetch v r] show "status r \<noteq> 400"
    by auto
qed

text \<open>
  Claim C1 as stated fails: the message that consists of one space is not answered with
  status 400; the fuzzy lookup finds the jacket for it, whose haystack contains a space.
\<close>

theorem whitespace_message_is_classified:
  "list_all is_space '' '' \<and>
   chat [jacket] None answering_delegate (JStr '' '') =
     (Inr \<lparr>status = 200,
           body = Reply_products ''Found 1 matching product(s).'' [summary jacket]\<rparr>, [])"
  by code_simp

theorem falsy_message_is_rejected_witness:
  "\<not> truthy (JStr []) \<and>
   chat [jacket] None answering_delegate (JStr []) =
     (Inr \<lparr>status = 400, body = Error_body ''Message is required''\<rparr>, []) \<and>
   \<not> truthy JUndefined \<and>
   chat [jacket] None answering_delegate JUndefined =
     (Inr \<lparr>status = 400, body = Error_body ''Message is required''\<rparr>, []) \<and>
   truthy (JStr ''   '') \<and>
   fst (chat [jacket] None answering_delegate (JStr ''   '')) =
     Inr \<lparr>status = 500,
          body = Error_body ''Gemini API key missing. Add GEMINI_API_KEY in .env file.''\<rparr> \<and>
   status \<lparr>status = 500,
          body = Error_body ''Gemini API key missing. Add GEMINI_API_KEY in .env file.''\<rparr> \<noteq> 400"
proof -
  have truths: "\<not> truthy (JStr [])" "\<not> truthy JUndefined" "truthy (JStr ''   '')"
    by simp_all
  have empty: "chat [jacket] None answering_delegate (JStr []) =
     (Inr \<lparr>status = 400, body = Error_body ''Message is required''\<rparr>, [])"
    using falsy_message_is_rejected [of "JStr []" "[jacket]" None answering_delegate]
    by simp
  have absent: "chat [jacket] None answering_delegate JUndefined =
     (Inr \<lparr>status = 400, body = Error_body ''Message is required''\<rparr>, [])"
    using falsy_message_is_rejected [of JUndefined "[jacket]" None answering_delegate]
    by simp
  have blank: "fst (chat [jacket] None answering_delegate (JStr ''   '')) =
     Inr \<lparr>status = 500,
          body = Error_body ''Gemini API key missing. Add GEMINI_API_KEY in .env file.''\<rparr>"
    by code_simp
  have "\<forall>r. fst (chat [jacket] None answering_delegate (JStr ''   '')) = Inr r \<longrightarrow>
      status r \<noteq> 400"
    using falsy_message_is_rejected [of "JStr ''   ''" "[jacket]" None answering_delegate]
      truths(3) by blast
  with blank have other: "status \<lparr>status = 500,
          body = Error_body ''Gemini API key missing. Add GEMINI_API_KEY in .env file.''\<rparr> \<noteq> 400"
    by blast
  show ?thesis
    by (intro conjI truths empty absent blank other)
qed

end
